theory Spec2Isabelle
  imports Complex_Main
begin

text \<open>
  The claim reconciliation engine of the copy-trading bot: \<open>normalizeConditionId\<close>,
  \<open>claimViaRelayer\<close>, \<open>claimViaDirect\<close> and \<open>claimWinnings\<close>. The functions are
  embedded as they are written. The environment and the libraries they call (the position
  source, the relay client, the chain client) are parameters; an exception is a value
  \<open>Inl e\<close>; the mutable result is passed through the loops together with the list of the
  calls made so far.
\<close>

section \<open>JavaScript strings\<close>

text \<open>
  A source string is a sequence of code units; it is modelled as a \<^typ>\<open>string\<close>, one
  element per code unit (nothing below depends on how many values a code unit can take).
  \<open>s.startsWith(p)\<close>, \<open>s.slice(n)\<close>, \<open>s.slice(-n)\<close>, \<open>s.slice(0, n)\<close> and
  \<open>s.padStart(n, c)\<close> (with a one-character pad string) are written out on lists. None
  of them raises, whatever the string.
\<close>

definition startsWith :: "string \<Rightarrow> string \<Rightarrow> bool" where
  "startsWith s p = (take (length p) s = p)"

definition sliceFrom :: "nat \<Rightarrow> string \<Rightarrow> string" where
  \<comment> \<open>\<open>s.slice(n)\<close>, \<open>n \<ge> 0\<close>\<close>
  "sliceFrom n s = drop n s"

definition sliceLast :: "nat \<Rightarrow> string \<Rightarrow> string" where
  \<comment> \<open>\<open>s.slice(-n)\<close>: the start index is \<open>max (length s - n) 0\<close>\<close>
  "sliceLast n s = drop (length s - n) s"

definition sliceTo :: "nat \<Rightarrow> string \<Rightarrow> string" where
  \<comment> \<open>\<open>s.slice(0, n)\<close>\<close>
  "sliceTo n s = take n s"

definition padStart :: "nat \<Rightarrow> char \<Rightarrow> string \<Rightarrow> string" where
  \<comment> \<open>\<open>s.padStart(n, c)\<close>: nothing is added to a string of \<open>n\<close> or more code units\<close>
  "padStart n c s = replicate (n - length s) c @ s"

section \<open>The condition normalizer\<close>

definition normalizeConditionId :: "string \<Rightarrow> string" where
  "normalizeConditionId cid =
     (let hex = (if startsWith cid ''0x'' then sliceFrom 2 cid else cid)
      in ''0x'' @ sliceLast 64 (padStart 64 (CHR ''0'') hex))"

text \<open>The pattern \<open>0x\<close> followed by exactly 64 lowercase hexadecimal digits.\<close>

definition isLowerHex :: "char \<Rightarrow> bool" where
  "isLowerHex c = (c \<in> set ''0123456789abcdef'')"

definition isBytes32Hex :: "string \<Rightarrow> bool" where
  "isBytes32Hex s = (take 2 s = ''0x'' \<and> length s = 66 \<and> list_all isLowerHex (drop 2 s))"

text \<open>What is left of an id once the optional prefix is stripped.\<close>

definition stripPrefix :: "string \<Rightarrow> string" where
  "stripPrefix cid = (if startsWith cid ''0x'' then sliceFrom 2 cid else cid)"

section \<open>Environment and the strategy selection\<close>

text \<open>
  \<open>process.env\<close> maps a variable name to its value; a variable that is not set reads as
  \<open>undefined\<close>, here \<open>None\<close>. A variable can be set to the empty string.
\<close>

type_synonym env = "string \<Rightarrow> string option"

definition nullish :: "string option \<Rightarrow> string option \<Rightarrow> string option" where
  \<comment> \<open>\<open>a ?? b\<close>: the right operand is taken only when the left one is \<open>undefined\<close>\<close>
  "nullish a b = (case a of None \<Rightarrow> b | Some v \<Rightarrow> Some v)"

definition truthy :: "string option \<Rightarrow> bool" where
  \<comment> \<open>\<open>!!v\<close> for a string or \<open>undefined\<close>: false for \<open>undefined\<close> and for the empty string\<close>
  "truthy v = (case v of None \<Rightarrow> False | Some s \<Rightarrow> s \<noteq> [])"

definition useRelayer :: "env \<Rightarrow> bool" where
  "useRelayer env =
     (truthy (nullish (env ''POLY_BUILDER_API_KEY'') (env ''BUILDER_API_KEY'')) \<and>
      truthy (nullish (env ''POLY_BUILDER_SECRET'') (env ''BUILDER_SECRET'')) \<and>
      truthy (nullish (env ''POLY_BUILDER_PASSPHRASE'') (env ''BUILDER_PASSPHRASE'')))"

text \<open>
  The selection as the spec words it, for comparison with \<^const>\<open>useRelayer\<close>: each
  credential is the first non-empty value of its two sources, and the relayed strategy is
  chosen if and only if all three credentials are present and non-empty.
\<close>

definition spec_firstNonEmpty :: "string option \<Rightarrow> string option \<Rightarrow> string option" where
  "spec_firstNonEmpty a b = (if truthy a then a else b)"

definition spec_useRelayer :: "env \<Rightarrow> bool" where
  "spec_useRelayer env =
     (truthy (spec_firstNonEmpty (env ''POLY_BUILDER_API_KEY'') (env ''BUILDER_API_KEY'')) \<and>
      truthy (spec_firstNonEmpty (env ''POLY_BUILDER_SECRET'') (env ''BUILDER_SECRET'')) \<and>
      truthy (spec_firstNonEmpty (env ''POLY_BUILDER_PASSPHRASE'') (env ''BUILDER_PASSPHRASE'')))"

text \<open>The three credentials: the primary and the fallback name of each.\<close>

definition credentialSources :: "(string \<times> string) list" where
  "credentialSources =
     [(''POLY_BUILDER_API_KEY'', ''BUILDER_API_KEY''),
      (''POLY_BUILDER_SECRET'', ''BUILDER_SECRET''),
      (''POLY_BUILDER_PASSPHRASE'', ''BUILDER_PASSPHRASE'')]"

definition credentialPresent :: "env \<Rightarrow> string \<times> string \<Rightarrow> bool" where
  \<comment> \<open>the value read for a credential is a non-empty string: the primary variable when it
      is set (to anything), the fallback only when the primary is not set\<close>
  "credentialPresent env pf =
     (case env (fst pf) of
        Some v \<Rightarrow> v \<noteq> []
      | None \<Rightarrow> (case env (snd pf) of Some v \<Rightarrow> v \<noteq> [] | None \<Rightarrow> False))"

section \<open>Data model\<close>

text \<open>
  A position as the position source returns it. The condition id may be missing
  (\<open>None\<close>: the source keeps only ids with \<open>typeof id === "string"\<close>). The size is a
  number; only \<open>size > 0\<close> is asked of it.
\<close>

record Position =
  conditionId :: "string option"
  size_pos :: real
  redeemable :: bool

record ClaimResult =
  claimed :: nat
  failed :: nat
  errors :: "string list"
  txHashes :: "string list"

text \<open>
  A thrown value, as the \<open>catch\<close> block sees it: an \<open>Error\<close> object with its string
  \<open>message\<close>; any other value with the string \<open>String(e)\<close> gives for it; or a value
  whose message cannot be read, with what reading it throws: an \<open>Error\<close> whose
  \<open>message\<close> is not a string, so that \<open>msg.slice\<close> throws, or a value for which
  \<open>String(e)\<close> throws. The \<open>catch\<close> block reads the message outside any \<open>try\<close>.
\<close>

datatype thrown = ErrorObject string | OtherValue string | Unreadable thrown

fun messageOf :: "thrown \<Rightarrow> thrown + string" where
  \<comment> \<open>\<open>e instanceof Error ? e.message : String(e)\<close>, then \<open>msg.slice(0, 80)\<close> can be taken\<close>
  "messageOf (ErrorObject m) = Inr m"
| "messageOf (OtherValue v) = Inr v"
| "messageOf (Unreadable t) = Inl t"

section \<open>External collaborators\<close>

text \<open>
  The calls that leave the module, in the order the code makes them. A run is described
  by its result and by the list of calls it has made.
\<close>

datatype call =
    GetPositions string nat
  | RelayClientSetup string
  | EncodeFunctionData string
  | RelayExecute string
  | ResponseWait
  | DirectSignerSetup string
  | RedeemPositions string
  | TxWait

text \<open>
  What the collaborators answer. None of them is code of the module: they are
  parameters. A call made inside the loops gets the calls made so far, so the answer to
  the same request may differ from one call to the next.
  \<^item> \<open>getPositions address limit\<close>: the positions, or a thrown value.
  \<^item> \<open>relayClientSetup privateKey (key, secret, passphrase)\<close>: the construction of the
    account, the wallet client, the builder configuration and the relay client from the
    signing key, before the loop; \<open>Some e\<close> when it throws \<open>e\<close>.
  \<^item> \<open>encodeFunctionData conditionId\<close>: the call data of \<open>redeemPositions\<close> for the
    collateral token, the zero parent collection, the normalized condition id and the index
    sets 1 and 2, or a thrown value.
  \<^item> \<open>relayExecute history data\<close>: submission through the relay; \<open>Some e\<close> when it throws.
  \<^item> \<open>responseWait history\<close>: the awaited confirmation: a thrown value, or the
    transaction hash of the result, \<open>None\<close> when the result or its hash is \<open>undefined\<close>.
  \<^item> \<open>directSignerSetup privateKey\<close>: the construction of the provider, the wallet and
    the contract from the signing key, before the loop; \<open>Some e\<close> when it throws.
  \<^item> \<open>redeemPositions history conditionId\<close>: the contract call with the same fixed
    arguments; \<open>Some e\<close> when it throws.
  \<^item> \<open>txWait history\<close>: the awaited receipt, as \<open>responseWait\<close>.
\<close>

record backend =
  getPositions :: "string \<Rightarrow> nat \<Rightarrow> thrown + Position list"
  relayClientSetup :: "string \<Rightarrow> string \<times> string \<times> string \<Rightarrow> thrown option"
  encodeFunctionData :: "string \<Rightarrow> thrown + string"
  relayExecute :: "call list \<Rightarrow> string \<Rightarrow> thrown option"
  responseWait :: "call list \<Rightarrow> thrown + string option"
  directSignerSetup :: "string \<Rightarrow> thrown option"
  redeemPositions :: "call list \<Rightarrow> string \<Rightarrow> thrown option"
  txWait :: "call list \<Rightarrow> thrown + string option"

text \<open>The redemption attempts among the calls: one per entry into a loop body.\<close>

fun attemptOf :: "call \<Rightarrow> string option" where
  "attemptOf (EncodeFunctionData c) = Some c"
| "attemptOf (RedeemPositions c) = Some c"
| "attemptOf _ = None"

definition attempts :: "call list \<Rightarrow> string list" where
  "attempts tr = List.map_filter attemptOf tr"

section \<open>The error record\<close>

text \<open>
  The template literal puts a fixed separator of three code units between the two
  truncated parts: the character U+2026, a colon and a space. A \<^typ>\<open>char\<close> has 256
  values, so the one code unit U+2026 is written as the single element \<open>0x85\<close>, the byte
  this character has in Windows-1252.
\<close>

definition errorSeparator :: string where
  "errorSeparator = [CHR 0x85, CHR '':'', CHR '' '']"

section \<open>The relayed redeemer\<close>

text \<open>The body of the \<open>try\<close> block: what it yields or throws, and the calls it made.\<close>

definition relayerTry :: "backend \<Rightarrow> call list \<Rightarrow> string \<Rightarrow> (thrown + string option) \<times> call list" where
  "relayerTry b tr cid =
     (let nid = normalizeConditionId cid;
          tr1 = tr @ [EncodeFunctionData nid]
      in case encodeFunctionData b nid of
           Inl e \<Rightarrow> (Inl e, tr1)
         | Inr dat \<Rightarrow>
             (let tr2 = tr1 @ [RelayExecute dat]
              in case relayExecute b tr1 dat of
                   Some e \<Rightarrow> (Inl e, tr2)
                 | None \<Rightarrow> (responseWait b tr2, tr2 @ [ResponseWait])))"

text \<open>
  One iteration of the loop: the \<open>try\<close> block and its \<open>catch\<close>. When the message of
  the caught value cannot be read, the \<open>catch\<close> block throws in its turn, after
  \<open>failed\<close> is incremented and before anything is pushed; the result is then lost with
  the run.
\<close>

definition relayerIteration ::
  "backend \<Rightarrow> string \<Rightarrow> ClaimResult \<times> call list \<Rightarrow> thrown + ClaimResult \<times> call list" where
  "relayerIteration b cid s =
     (case relayerTry b (snd s) cid of
        (Inr waitResult, tr') \<Rightarrow>
          (case waitResult of
             Some h \<Rightarrow>
               if h \<noteq> []
               then Inr ((fst s)\<lparr>claimed := claimed (fst s) + 1, txHashes := txHashes (fst s) @ [h]\<rparr>, tr')
               else Inr (fst s, tr')
           | None \<Rightarrow> Inr (fst s, tr'))
      | (Inl e, tr') \<Rightarrow>
          (case messageOf e of
             Inl t \<Rightarrow> Inl t
           | Inr msg \<Rightarrow>
               Inr ((fst s)\<lparr>failed := failed (fst s) + 1,
                            errors := errors (fst s) @ [sliceTo 10 cid @ errorSeparator @ sliceTo 80 msg]\<rparr>,
                    tr')))"

text \<open>The \<open>for\<close> loop: an exception that leaves an iteration leaves the loop.\<close>

fun relayerLoop ::
  "backend \<Rightarrow> string list \<Rightarrow> ClaimResult \<times> call list \<Rightarrow> thrown + ClaimResult \<times> call list" where
  "relayerLoop b [] s = Inr s"
| "relayerLoop b (cid # rest) s =
     (case relayerIteration b cid s of
        Inl t \<Rightarrow> Inl t
      | Inr s' \<Rightarrow> relayerLoop b rest s')"

definition claimViaRelayer ::
  "backend \<Rightarrow> env \<Rightarrow> string \<Rightarrow> string list \<Rightarrow> ClaimResult \<times> call list \<Rightarrow> thrown + ClaimResult \<times> call list" where
  "claimViaRelayer b env privateKey conditionIds s =
     (let key = nullish (env ''POLY_BUILDER_API_KEY'') (env ''BUILDER_API_KEY'');
          secret = nullish (env ''POLY_BUILDER_SECRET'') (env ''BUILDER_SECRET'');
          passphrase = nullish (env ''POLY_BUILDER_PASSPHRASE'') (env ''BUILDER_PASSPHRASE'')
      in if \<not> truthy key \<or> \<not> truthy secret \<or> \<not> truthy passphrase then Inr s
         else
           (case relayClientSetup b privateKey (the key, the secret, the passphrase) of
              Some e \<Rightarrow> Inl e
            | None \<Rightarrow> relayerLoop b conditionIds (fst s, snd s @ [RelayClientSetup privateKey])))"

section \<open>The direct redeemer\<close>

definition directTry :: "backend \<Rightarrow> call list \<Rightarrow> string \<Rightarrow> (thrown + string option) \<times> call list" where
  "directTry b tr cid =
     (let nid = normalizeConditionId cid;
          tr1 = tr @ [RedeemPositions nid]
      in case redeemPositions b tr nid of
           Some e \<Rightarrow> (Inl e, tr1)
         | None \<Rightarrow> (txWait b tr1, tr1 @ [TxWait]))"

definition directIteration ::
  "backend \<Rightarrow> string \<Rightarrow> ClaimResult \<times> call list \<Rightarrow> thrown + ClaimResult \<times> call list" where
  "directIteration b cid s =
     (case directTry b (snd s) cid of
        (Inr receipt, tr') \<Rightarrow>
          (case receipt of
             Some h \<Rightarrow>
               if h \<noteq> []
               then Inr ((fst s)\<lparr>claimed := claimed (fst s) + 1, txHashes := txHashes (fst s) @ [h]\<rparr>, tr')
               else Inr (fst s, tr')
           | None \<Rightarrow> Inr (fst s, tr'))
      | (Inl e, tr') \<Rightarrow>
          (case messageOf e of
             Inl t \<Rightarrow> Inl t
           | Inr msg \<Rightarrow>
               Inr ((fst s)\<lparr>failed := failed (fst s) + 1,
                            errors := errors (fst s) @ [sliceTo 10 cid @ errorSeparator @ sliceTo 80 msg]\<rparr>,
                    tr')))"

text \<open>The \<open>for\<close> loop: an exception that leaves an iteration leaves the loop.\<close>

fun directLoop ::
  "backend \<Rightarrow> string list \<Rightarrow> ClaimResult \<times> call list \<Rightarrow> thrown + ClaimResult \<times> call list" where
  "directLoop b [] s = Inr s"
| "directLoop b (cid # rest) s =
     (case directIteration b cid s of
        Inl t \<Rightarrow> Inl t
      | Inr s' \<Rightarrow> directLoop b rest s')"

definition claimViaDirect ::
  "backend \<Rightarrow> string \<Rightarrow> string list \<Rightarrow> ClaimResult \<times> call list \<Rightarrow> thrown + ClaimResult \<times> call list" where
  "claimViaDirect b privateKey conditionIds s =
     (case directSignerSetup b privateKey of
        Some e \<Rightarrow> Inl e
      | None \<Rightarrow> directLoop b conditionIds (fst s, snd s @ [DirectSignerSetup privateKey]))"

section \<open>The claim reconciler\<close>

text \<open>
  \<open>Array.from(new Set(xs))\<close>: a set keeps its elements in insertion order, and adding an
  element it already has changes nothing.
\<close>

definition setAdd :: "'a list \<Rightarrow> 'a \<Rightarrow> 'a list" where
  "setAdd acc x = (if x \<in> set acc then acc else acc @ [x])"

definition arrayFromSet :: "'a list \<Rightarrow> 'a list" where
  "arrayFromSet xs = foldl setAdd [] xs"

definition isNonEmptyString :: "string option \<Rightarrow> string option" where
  \<comment> \<open>the type guard \<open>typeof id === "string" && id.length > 0\<close>\<close>
  "isNonEmptyString v = (case v of None \<Rightarrow> None | Some c \<Rightarrow> if length c > 0 then Some c else None)"

definition redeemablePositions :: "Position list \<Rightarrow> Position list" where
  "redeemablePositions positions = filter (\<lambda>p. redeemable p \<and> size_pos p > 0) positions"

definition conditionIdsOf :: "Position list \<Rightarrow> string list" where
  "conditionIdsOf redeemableList =
     List.map_filter isNonEmptyString (arrayFromSet (map conditionId redeemableList))"

definition emptyResult :: ClaimResult where
  "emptyResult = \<lparr>claimed = 0, failed = 0, errors = [], txHashes = []\<rparr>"

definition claimWinnings ::
  "backend \<Rightarrow> env \<Rightarrow> string \<Rightarrow> string \<Rightarrow> thrown + ClaimResult \<times> call list" where
  "claimWinnings b env privateKey myAddress =
     (let result = emptyResult;
          tr = [GetPositions myAddress 200]
      in case getPositions b myAddress 200 of
           Inl e \<Rightarrow> Inl e
         | Inr positions \<Rightarrow>
             (let redeemableList = redeemablePositions positions
              in if length redeemableList = 0 then Inr (result, tr)
                 else
                   (let conditionIds = conditionIdsOf redeemableList
                    in if useRelayer env
                       then claimViaRelayer b env privateKey conditionIds (result, tr)
                       else claimViaDirect b privateKey conditionIds (result, tr))))"

section \<open>Example inputs\<close>

text \<open>
  Environments: all three primary variables set; none set; the primary key variable
  set to the empty string while its fallback holds a value.
\<close>

definition envRelayed :: env where
  "envRelayed =
     (\<lambda>_. None)(''POLY_BUILDER_API_KEY'' := Some ''k'',
                 ''POLY_BUILDER_SECRET'' := Some ''s'',
                 ''POLY_BUILDER_PASSPHRASE'' := Some ''p'')"

definition envUnset :: env where
  "envUnset = (\<lambda>_. None)"

definition envEmptyPrimary :: env where
  "envEmptyPrimary =
     (\<lambda>_. None)(''POLY_BUILDER_API_KEY'' := Some [],
                 ''BUILDER_API_KEY'' := Some ''k'',
                 ''POLY_BUILDER_SECRET'' := Some ''s'',
                 ''POLY_BUILDER_PASSPHRASE'' := Some ''p'')"

text \<open>The positions of the spec's example scenario.\<close>

definition scenarioPositions :: "Position list" where
  "scenarioPositions =
     [\<lparr>conditionId = Some ''abc'', size_pos = 5, redeemable = True\<rparr>,
      \<lparr>conditionId = Some ''abc'', size_pos = 3, redeemable = True\<rparr>,
      \<lparr>conditionId = Some ''def'', size_pos = 0, redeemable = True\<rparr>,
      \<lparr>conditionId = Some ''ghi'', size_pos = 2, redeemable = False\<rparr>]"

text \<open>Three redeemable positions with distinct ids longer than ten characters.\<close>

definition threePositions :: "Position list" where
  "threePositions =
     [\<lparr>conditionId = Some ''0x11112222333344aaa'', size_pos = 1, redeemable = True\<rparr>,
      \<lparr>conditionId = Some ''0x11112222333344bbb'', size_pos = 2, redeemable = True\<rparr>,
      \<lparr>conditionId = Some ''0x11112222333344ccc'', size_pos = 3, redeemable = True\<rparr>]"

definition longMessage :: string where
  "longMessage = replicate 80 (CHR ''x'') @ ''TAIL''"

text \<open>
  A test double for the collaborators. It answers \<open>positions\<close> to the position fetch,
  rejects the signing keys in \<open>badKeys\<close> when a client is built from them, throws
  \<^const>\<open>longMessage\<close> when asked to redeem an id whose last three characters are in
  \<open>failing\<close>, confirms without a hash the ids whose last three characters are in
  \<open>unconfirmed\<close>, and confirms every other id with a hash made of those three characters.
\<close>

definition lastAttempt :: "call list \<Rightarrow> string" where
  "lastAttempt tr = (case rev (attempts tr) of [] \<Rightarrow> [] | c # _ \<Rightarrow> sliceLast 3 c)"

definition mockBackend ::
  "thrown + Position list \<Rightarrow> string list \<Rightarrow> string list \<Rightarrow> string list \<Rightarrow> backend" where
  "mockBackend positions badKeys failing unconfirmed =
     \<lparr>getPositions = (\<lambda>address limit. positions),
      relayClientSetup =
        (\<lambda>k creds. if k \<in> set badKeys then Some (ErrorObject ''invalid private key'') else None),
      encodeFunctionData = (\<lambda>c. Inr (''redeemPositions'' @ c)),
      relayExecute =
        (\<lambda>tr dat. if sliceLast 3 dat \<in> set failing then Some (ErrorObject longMessage) else None),
      responseWait =
        (\<lambda>tr. Inr (if lastAttempt tr \<in> set unconfirmed then None else Some (''0xtx'' @ lastAttempt tr))),
      directSignerSetup =
        (\<lambda>k. if k \<in> set badKeys then Some (ErrorObject ''invalid private key'') else None),
      redeemPositions =
        (\<lambda>tr c. if sliceLast 3 c \<in> set failing then Some (ErrorObject longMessage) else None),
      txWait =
        (\<lambda>tr. Inr (if lastAttempt tr \<in> set unconfirmed then None else Some (''0xtx'' @ lastAttempt tr)))\<rparr>"

section \<open>Auxiliary notions for the statements\<close>

text \<open>The credentials handed to the relay client once the guard has passed.\<close>

definition builderCreds :: "env \<Rightarrow> string \<times> string \<times> string" where
  "builderCreds env =
     (the (nullish (env ''POLY_BUILDER_API_KEY'') (env ''BUILDER_API_KEY'')),
      the (nullish (env ''POLY_BUILDER_SECRET'') (env ''BUILDER_SECRET'')),
      the (nullish (env ''POLY_BUILDER_PASSPHRASE'') (env ''BUILDER_PASSPHRASE'')))"









section \<open>Further example inputs\<close>




section \<open>Properties of the normalizer\<close>

lemma length_sliceLast_padStart: "length (sliceLast 64 (padStart 64 c s)) = 64"
  by (simp add: sliceLast_def padStart_def)

lemma normalizeConditionId_shape:
  "normalizeConditionId cid = ''0x'' @ sliceLast 64 (padStart 64 (CHR ''0'') (stripPrefix cid))"
  by (simp add: normalizeConditionId_def stripPrefix_def)

lemma length_normalizeConditionId: "length (normalizeConditionId cid) = 66"
  by (simp add: normalizeConditionId_shape length_sliceLast_padStart)

lemma stripPrefix_0x: "stripPrefix (''0x'' @ h) = h"
  by (simp add: stripPrefix_def startsWith_def sliceFrom_def)

lemma stripPrefix_explicit: "stripPrefix x = (if take 2 x = ''0x'' then drop 2 x else x)"
  by (simp add: stripPrefix_def startsWith_def sliceFrom_def numeral_2_eq_2)

lemma sliceLast_padStart_64: "length h = 64 \<Longrightarrow> sliceLast 64 (padStart 64 c h) = h"
  by (simp add: sliceLast_def padStart_def)

lemma sliceLast_padStart_value:
  "sliceLast 64 (padStart 64 c h) = replicate (64 - length h) c @ drop (length h - 64) h"
proof (cases "64 \<le> length h")
  case True
  then show ?thesis
    by (simp add: sliceLast_def padStart_def)
next
  case False
  then show ?thesis
    by (simp add: sliceLast_def padStart_def)
qed

lemma normalizeConditionId_value:
  "normalizeConditionId x =
     ''0x'' @ replicate (64 - length (stripPrefix x)) (CHR ''0'') @
       drop (length (stripPrefix x) - 64) (stripPrefix x)"
  by (simp only: normalizeConditionId_shape sliceLast_padStart_value)

lemma drop2_normalizeConditionId:
  "drop 2 (normalizeConditionId x) = sliceLast 64 (padStart 64 (CHR ''0'') (stripPrefix x))"
  by (simp add: normalizeConditionId_shape)

lemma take2_normalizeConditionId: "take 2 (normalizeConditionId x) = ''0x''"
  by (simp add: normalizeConditionId_shape)

lemma list_all_sliceLast_padStart:
  "list_all isLowerHex (sliceLast 64 (padStart 64 (CHR ''0'') s)) = list_all isLowerHex (sliceLast 64 s)"
proof (cases "64 \<le> length s")
  case True
  then show ?thesis
    by (simp add: sliceLast_def padStart_def)
next
  case False
  then have "sliceLast 64 (padStart 64 (CHR ''0'') s) = replicate (64 - length s) (CHR ''0'') @ s"
    by (simp add: sliceLast_def padStart_def)
  moreover from False have "sliceLast 64 s = s"
    by (simp add: sliceLast_def)
  moreover have "isLowerHex (CHR ''0'')"
    by (simp add: isLowerHex_def)
  ultimately show ?thesis
    by (auto simp: list_all_iff)
qed

lemma isBytes32Hex_normalizeConditionId:
  "isBytes32Hex (normalizeConditionId x) = list_all isLowerHex (sliceLast 64 (stripPrefix x))"
  by (simp only: isBytes32Hex_def take2_normalizeConditionId length_normalizeConditionId
      drop2_normalizeConditionId list_all_sliceLast_padStart simp_thms)

lemma list_all_sliceLast: "list_all P s \<Longrightarrow> list_all P (sliceLast n s)"
  by (auto simp: sliceLast_def list_all_iff dest: in_set_dropD)

section \<open>Properties of the strategy selection\<close>

lemma truthy_nullish: "truthy (nullish (env p) (env f)) = credentialPresent env (p, f)"
  by (simp add: truthy_def nullish_def credentialPresent_def split: option.splits)

lemma useRelayer_credentialPresent:
  "useRelayer env = (\<forall>pf \<in> set credentialSources. credentialPresent env pf)"
  by (simp add: useRelayer_def truthy_nullish credentialSources_def)

lemma credentialPresent_primary_empty: "\<not> credentialPresent (env(p := Some [])) (p, f)"
  by (simp add: credentialPresent_def)

lemma credentialPresent_both_unset: "\<not> credentialPresent (env(p := None, f := None)) (p, f)"
  by (simp add: credentialPresent_def)

lemma spec_firstNonEmpty_nullish:
  "a \<noteq> Some [] \<Longrightarrow> truthy (spec_firstNonEmpty a b) = truthy (nullish a b)"
  by (cases a) (simp_all add: spec_firstNonEmpty_def nullish_def truthy_def)

lemma useRelayer_spec_agree:
  assumes "\<forall>pf \<in> set credentialSources. env (fst pf) \<noteq> Some []"
  shows "useRelayer env = spec_useRelayer env"
  using assms
  by (simp add: useRelayer_def spec_useRelayer_def credentialSources_def spec_firstNonEmpty_nullish)

lemma claimViaRelayer_selected:
  "useRelayer env \<Longrightarrow>
   claimViaRelayer b env k cids s =
     (case relayClientSetup b k (builderCreds env) of
        Some e \<Rightarrow> Inl e
      | None \<Rightarrow> relayerLoop b cids (fst s, snd s @ [RelayClientSetup k]))"
  by (simp add: useRelayer_def claimViaRelayer_def builderCreds_def Let_def)


section \<open>Properties of the calls of a run\<close>












section \<open>Properties of one iteration\<close>

lemma relayerIteration_readable:
  "relayerTry b tr cid = (Inl e, tr') \<Longrightarrow> messageOf e = Inr m \<Longrightarrow>
   relayerIteration b cid (r, tr) =
     Inr (r\<lparr>failed := failed r + 1,
            errors := errors r @ [take 10 cid @ errorSeparator @ take 80 m]\<rparr>, tr')"
  by (simp add: relayerIteration_def sliceTo_def)

lemma directIteration_readable:
  "directTry b tr cid = (Inl e, tr') \<Longrightarrow> messageOf e = Inr m \<Longrightarrow>
   directIteration b cid (r, tr) =
     Inr (r\<lparr>failed := failed r + 1,
            errors := errors r @ [take 10 cid @ errorSeparator @ take 80 m]\<rparr>, tr')"
  by (simp add: directIteration_def sliceTo_def)



lemma relayerIteration_no_hash:
  "relayerTry b tr cid = (Inr w, tr') \<Longrightarrow> \<not> truthy w \<Longrightarrow>
   relayerIteration b cid (r, tr) = Inr (r, tr')"
  by (simp add: relayerIteration_def truthy_def split: option.splits)

lemma directIteration_no_hash:
  "directTry b tr cid = (Inr w, tr') \<Longrightarrow> \<not> truthy w \<Longrightarrow>
   directIteration b cid (r, tr) = Inr (r, tr')"
  by (simp add: directIteration_def truthy_def split: option.splits)





lemma relayerIteration_errors:
  "relayerIteration b cid (r, tr) = Inr (r', tr'') \<Longrightarrow>
   (case fst (relayerTry b tr cid) of
      Inl e \<Rightarrow>
        (\<exists>m. messageOf e = Inr m \<and>
           errors r' = errors r @ [take 10 cid @ errorSeparator @ take 80 m])
    | Inr w \<Rightarrow> errors r' = errors r)"
  by (cases "relayerTry b tr cid")
    (auto simp: relayerIteration_def sliceTo_def split: sum.splits option.splits if_splits)

lemma directIteration_errors:
  "directIteration b cid (r, tr) = Inr (r', tr'') \<Longrightarrow>
   (case fst (directTry b tr cid) of
      Inl e \<Rightarrow>
        (\<exists>m. messageOf e = Inr m \<and>
           errors r' = errors r @ [take 10 cid @ errorSeparator @ take 80 m])
    | Inr w \<Rightarrow> errors r' = errors r)"
  by (cases "directTry b tr cid")
    (auto simp: directIteration_def sliceTo_def split: sum.splits option.splits if_splits)

lemma relayerIteration_records:
  assumes "\<forall>x \<in> set (errors (fst s)). \<exists>c m. x = take 10 c @ errorSeparator @ take 80 m"
    and "relayerIteration b cid s = Inr s'"
  shows "\<forall>x \<in> set (errors (fst s')). \<exists>c m. x = take 10 c @ errorSeparator @ take 80 m"
proof -
  obtain r tr where s: "s = (r, tr)"
    by (cases s)
  obtain r' tr' where s': "s' = (r', tr')"
    by (cases s')
  from relayerIteration_errors [of b cid r tr r' tr'] assms(2) s s'
  have "errors r' = errors r \<or>
      (\<exists>m. errors r' = errors r @ [take 10 cid @ errorSeparator @ take 80 m])"
    by (auto split: sum.splits)
  with assms(1) s s' show ?thesis
    by auto blast
qed

lemma directIteration_records:
  assumes "\<forall>x \<in> set (errors (fst s)). \<exists>c m. x = take 10 c @ errorSeparator @ take 80 m"
    and "directIteration b cid s = Inr s'"
  shows "\<forall>x \<in> set (errors (fst s')). \<exists>c m. x = take 10 c @ errorSeparator @ take 80 m"
proof -
  obtain r tr where s: "s = (r, tr)"
    by (cases s)
  obtain r' tr' where s': "s' = (r', tr')"
    by (cases s')
  from directIteration_errors [of b cid r tr r' tr'] assms(2) s s'
  have "errors r' = errors r \<or>
      (\<exists>m. errors r' = errors r @ [take 10 cid @ errorSeparator @ take 80 m])"
    by (auto split: sum.splits)
  with assms(1) s s' show ?thesis
    by auto blast
qed



lemma relayerIteration_count:
  "relayerIteration b cid s = Inr s' \<Longrightarrow>
   claimed (fst s') + failed (fst s') \<le> claimed (fst s) + failed (fst s) + 1"
  by (cases "relayerTry b (snd s) cid")
    (auto simp: relayerIteration_def split: sum.splits option.splits if_splits)

lemma directIteration_count:
  "directIteration b cid s = Inr s' \<Longrightarrow>
   claimed (fst s') + failed (fst s') \<le> claimed (fst s) + failed (fst s) + 1"
  by (cases "directTry b (snd s) cid")
    (auto simp: directIteration_def split: sum.splits option.splits if_splits)

section \<open>Properties of the two loops\<close>










lemma relayerLoop_records:
  "\<forall>x \<in> set (errors (fst s)). \<exists>c m. x = take 10 c @ errorSeparator @ take 80 m \<Longrightarrow>
   relayerLoop b cids s = Inr s' \<Longrightarrow>
   \<forall>x \<in> set (errors (fst s')). \<exists>c m. x = take 10 c @ errorSeparator @ take 80 m"
proof (induction cids arbitrary: s)
  case Nil
  then show ?case by simp
next
  case (Cons c cs)
  from Cons.prems(2) obtain s1 where i: "relayerIteration b c s = Inr s1"
    and l: "relayerLoop b cs s1 = Inr s'"
    by (auto split: sum.splits)
  from Cons.IH [OF relayerIteration_records [OF Cons.prems(1) i] l] show ?case .
qed

lemma directLoop_records:
  "\<forall>x \<in> set (errors (fst s)). \<exists>c m. x = take 10 c @ errorSeparator @ take 80 m \<Longrightarrow>
   directLoop b cids s = Inr s' \<Longrightarrow>
   \<forall>x \<in> set (errors (fst s')). \<exists>c m. x = take 10 c @ errorSeparator @ take 80 m"
proof (induction cids arbitrary: s)
  case Nil
  then show ?case by simp
next
  case (Cons c cs)
  from Cons.prems(2) obtain s1 where i: "directIteration b c s = Inr s1"
    and l: "directLoop b cs s1 = Inr s'"
    by (auto split: sum.splits)
  from Cons.IH [OF directIteration_records [OF Cons.prems(1) i] l] show ?case .
qed

lemma relayerLoop_count:
  "relayerLoop b cids s = Inr s' \<Longrightarrow>
   claimed (fst s') + failed (fst s') \<le> claimed (fst s) + failed (fst s) + length cids"
proof (induction cids arbitrary: s)
  case Nil
  then show ?case by simp
next
  case (Cons c cs)
  from Cons.prems obtain s1 where i: "relayerIteration b c s = Inr s1"
    and l: "relayerLoop b cs s1 = Inr s'"
    by (auto split: sum.splits)
  from Cons.IH [OF l] relayerIteration_count [OF i] show ?case by simp
qed

lemma directLoop_count:
  "directLoop b cids s = Inr s' \<Longrightarrow>
   claimed (fst s') + failed (fst s') \<le> claimed (fst s) + failed (fst s) + length cids"
proof (induction cids arbitrary: s)
  case Nil
  then show ?case by simp
next
  case (Cons c cs)
  from Cons.prems obtain s1 where i: "directIteration b c s = Inr s1"
    and l: "directLoop b cs s1 = Inr s'"
    by (auto split: sum.splits)
  from Cons.IH [OF l] directIteration_count [OF i] show ?case by simp
qed





section \<open>Properties of the redeemable set\<close>











section \<open>Properties of the reconciler\<close>

lemma claimWinnings_dispatch:
  assumes "getPositions b a 200 = Inr ps" and "redeemablePositions ps \<noteq> []"
  shows "claimWinnings b env k a =
           (if useRelayer env
            then claimViaRelayer b env k (conditionIdsOf (redeemablePositions ps))
                   (emptyResult, [GetPositions a 200])
            else claimViaDirect b k (conditionIdsOf (redeemablePositions ps))
                   (emptyResult, [GetPositions a 200]))"
  using assms by (simp add: claimWinnings_def Let_def)

lemma claimWinnings_fetch_failed:
  "getPositions b a 200 = Inl e \<Longrightarrow> claimWinnings b env k a = Inl e"
  by (simp add: claimWinnings_def)

lemma claimWinnings_empty:
  assumes "getPositions b a 200 = Inr ps" and "redeemablePositions ps = []"
  shows "claimWinnings b env k a = Inr (emptyResult, [GetPositions a 200])"
  using assms by (simp add: claimWinnings_def Let_def)



lemma claimViaDirect_Inr:
  "claimViaDirect b k cids s = Inr s' \<longleftrightarrow>
     directSignerSetup b k = None \<and>
     directLoop b cids (fst s, snd s @ [DirectSignerSetup k]) = Inr s'"
  by (simp add: claimViaDirect_def split: option.splits)

lemma claimViaRelayer_Inr:
  "useRelayer env \<Longrightarrow>
   claimViaRelayer b env k cids s = Inr s' \<longleftrightarrow>
     relayClientSetup b k (builderCreds env) = None \<and>
     relayerLoop b cids (fst s, snd s @ [RelayClientSetup k]) = Inr s'"
  by (simp add: claimViaRelayer_selected split: option.splits)


lemma claimWinnings_Inr:
  assumes "getPositions b a 200 = Inr ps"
  shows "claimWinnings b env k a = Inr (r, tr) \<longleftrightarrow>
     (redeemablePositions ps = [] \<and> r = emptyResult \<and> tr = [GetPositions a 200]) \<or>
     (redeemablePositions ps \<noteq> [] \<and> useRelayer env \<and>
        relayClientSetup b k (builderCreds env) = None \<and>
        relayerLoop b (conditionIdsOf (redeemablePositions ps))
          (emptyResult, [GetPositions a 200, RelayClientSetup k]) = Inr (r, tr)) \<or>
     (redeemablePositions ps \<noteq> [] \<and> \<not> useRelayer env \<and>
        directSignerSetup b k = None \<and>
        directLoop b (conditionIdsOf (redeemablePositions ps))
          (emptyResult, [GetPositions a 200, DirectSignerSetup k]) = Inr (r, tr))"
proof (cases "redeemablePositions ps = []")
  case True
  with assms show ?thesis
    by (auto simp: claimWinnings_empty)
next
  case False
  with assms show ?thesis
    by (simp add: claimWinnings_dispatch claimViaDirect_Inr claimViaRelayer_Inr)
qed

lemma claimWinnings_Inr_fetched:
  "claimWinnings b env k a = Inr x \<Longrightarrow> \<exists>ps. getPositions b a 200 = Inr ps"
  by (cases "getPositions b a 200") (simp_all add: claimWinnings_fetch_failed)


lemma claimWinnings_records:
  assumes "claimWinnings b env k a = Inr (r, tr)"
  shows "\<forall>x \<in> set (errors r). \<exists>c m. x = take 10 c @ errorSeparator @ take 80 m"
proof -
  from claimWinnings_Inr_fetched [OF assms] obtain ps where ps: "getPositions b a 200 = Inr ps"
    by blast
  have start: "\<forall>x \<in> set (errors (fst (emptyResult, tr'))).
      \<exists>c m. x = take 10 c @ errorSeparator @ take 80 m" for tr' :: "call list"
    by (simp add: emptyResult_def)
  from assms claimWinnings_Inr [OF ps, of env k r tr]
  consider "r = emptyResult"
    | "relayerLoop b (conditionIdsOf (redeemablePositions ps))
          (emptyResult, [GetPositions a 200, RelayClientSetup k]) = Inr (r, tr)"
    | "directLoop b (conditionIdsOf (redeemablePositions ps))
          (emptyResult, [GetPositions a 200, DirectSignerSetup k]) = Inr (r, tr)"
    by blast
  then show ?thesis
  proof cases
    case 1
    then show ?thesis by (simp add: emptyResult_def)
  next
    case 2
    from relayerLoop_records [OF start 2] show ?thesis
      by simp
  next
    case 3
    from directLoop_records [OF start 3] show ?thesis
      by simp
  qed
qed




section \<open>The example inputs evaluated\<close>

lemma scenario_redeemable:
  "redeemablePositions scenarioPositions =
     [\<lparr>conditionId = Some ''abc'', size_pos = 5, redeemable = True\<rparr>,
      \<lparr>conditionId = Some ''abc'', size_pos = 3, redeemable = True\<rparr>]"
  by (simp add: redeemablePositions_def scenarioPositions_def)

lemma scenario_conditionIds:
  "conditionIdsOf (redeemablePositions scenarioPositions) = [''abc'']"
  by (simp add: scenario_redeemable conditionIdsOf_def arrayFromSet_def setAdd_def
      isNonEmptyString_def List.map_filter_simps)





lemma mockBackend_simps:
  "getPositions (mockBackend ps bad failing unconfirmed) a n = ps"
  "relayClientSetup (mockBackend ps bad failing unconfirmed) k creds =
     (if k \<in> set bad then Some (ErrorObject ''invalid private key'') else None)"
  "directSignerSetup (mockBackend ps bad failing unconfirmed) k =
     (if k \<in> set bad then Some (ErrorObject ''invalid private key'') else None)"
  "encodeFunctionData (mockBackend ps bad failing unconfirmed) c = Inr (''redeemPositions'' @ c)"
  by (simp_all add: mockBackend_def)




lemma longMessage_truncated:
  "length longMessage = 84" "take 80 longMessage = replicate 80 (CHR ''x'')"
  by (simp_all add: longMessage_def)





lemma run_three_direct:
  "claimWinnings (mockBackend (Inr threePositions) [] [''bbb''] []) envUnset ''key'' ''addr'' =
     Inr (\<lparr>claimed = 2, failed = 1,
            errors = [''0x11112222'' @ errorSeparator @ replicate 80 (CHR ''x'')],
            txHashes = [''0xtxaaa'', ''0xtxccc'']\<rparr>,
          [GetPositions ''addr'' 200, DirectSignerSetup ''key'',
           RedeemPositions (normalizeConditionId ''0x11112222333344aaa''), TxWait,
           RedeemPositions (normalizeConditionId ''0x11112222333344bbb''),
           RedeemPositions (normalizeConditionId ''0x11112222333344ccc''), TxWait])"
  by code_simp

lemma run_three_relayed:
  "claimWinnings (mockBackend (Inr threePositions) [] [''bbb''] []) envRelayed ''key'' ''addr'' =
     Inr (\<lparr>claimed = 2, failed = 1,
            errors = [''0x11112222'' @ errorSeparator @ replicate 80 (CHR ''x'')],
            txHashes = [''0xtxaaa'', ''0xtxccc'']\<rparr>,
          [GetPositions ''addr'' 200, RelayClientSetup ''key'',
           EncodeFunctionData (normalizeConditionId ''0x11112222333344aaa''),
           RelayExecute (''redeemPositions'' @ normalizeConditionId ''0x11112222333344aaa''),
           ResponseWait,
           EncodeFunctionData (normalizeConditionId ''0x11112222333344bbb''),
           RelayExecute (''redeemPositions'' @ normalizeConditionId ''0x11112222333344bbb''),
           EncodeFunctionData (normalizeConditionId ''0x11112222333344ccc''),
           RelayExecute (''redeemPositions'' @ normalizeConditionId ''0x11112222333344ccc''),
           ResponseWait])"
  by code_simp




lemma failing_tries:
  "relayerTry (mockBackend (Inr threePositions) [] [''bbb''] []) [] ''0x11112222333344bbb'' =
     (Inl (ErrorObject longMessage),
      [EncodeFunctionData (normalizeConditionId ''0x11112222333344bbb''),
       RelayExecute (''redeemPositions'' @ normalizeConditionId ''0x11112222333344bbb'')])"
  "directTry (mockBackend (Inr threePositions) [] [''bbb''] []) [] ''0x11112222333344bbb'' =
     (Inl (ErrorObject longMessage),
      [RedeemPositions (normalizeConditionId ''0x11112222333344bbb'')])"
  by code_simp+


lemma unconfirmed_tries:
  "relayerTry (mockBackend (Inr threePositions) [] [] [''ccc'']) [] ''0x11112222333344ccc'' =
     (Inr None,
      [EncodeFunctionData (normalizeConditionId ''0x11112222333344ccc''),
       RelayExecute (''redeemPositions'' @ normalizeConditionId ''0x11112222333344ccc''),
       ResponseWait])"
  "directTry (mockBackend (Inr threePositions) [] [] [''ccc'']) [] ''0x11112222333344ccc'' =
     (Inr None, [RedeemPositions (normalizeConditionId ''0x11112222333344ccc''), TxWait])"
  by code_simp+

lemma unconfirmed_loops:
  "relayerLoop (mockBackend (Inr threePositions) [] [] [''ccc''])
     [''0x11112222333344ccc''] (emptyResult, []) =
     Inr (emptyResult,
      [EncodeFunctionData (normalizeConditionId ''0x11112222333344ccc''),
       RelayExecute (''redeemPositions'' @ normalizeConditionId ''0x11112222333344ccc''),
       ResponseWait])"
  "directLoop (mockBackend (Inr threePositions) [] [] [''ccc''])
     [''0x11112222333344ccc''] (emptyResult, []) =
     Inr (emptyResult, [RedeemPositions (normalizeConditionId ''0x11112222333344ccc''), TxWait])"
  by (simp_all add: relayerIteration_no_hash [OF unconfirmed_tries(1)]
      directIteration_no_hash [OF unconfirmed_tries(2)] truthy_def)



section \<open>Strategy selection\<close>

text \<open>
  C1, as the spec states it, fails. With the primary key variable set to the empty string
  and the fallback key variable set to \<open>k\<close>, the first non-empty value of every credential
  is present, so the spec selects the relayed strategy; the code reads the empty primary
  value, does not look at the fallback, and selects the direct strategy.
\<close>

theorem useRelayer_selection_counterexample:
  "spec_useRelayer envEmptyPrimary \<and> \<not> useRelayer envEmptyPrimary"
  by (simp add: spec_useRelayer_def useRelayer_def spec_firstNonEmpty_def nullish_def truthy_def
      envEmptyPrimary_def)

text \<open>
  C1, amended. Each credential is read from its primary variable when that variable is set,
  even to the empty string, and from its fallback variable only when the primary one is not
  set. The relayed strategy is selected if and only if all three values so read are
  non-empty strings, and the direct strategy in every other case: setting the primary
  variable of any one credential to the empty string, or unsetting both of its variables,
  gives the direct strategy. When no primary variable is set to the empty string the
  selection is the one the spec describes. A run that has something to redeem hands the
  whole list of condition ids to the one redeemer selected.
\<close>

theorem useRelayer_selection:
  "(useRelayer env \<longleftrightarrow> (\<forall>pf \<in> set credentialSources. credentialPresent env pf)) \<and>
   (\<forall>pf \<in> set credentialSources. \<not> useRelayer (env(fst pf := Some []))) \<and>
   (\<forall>pf \<in> set credentialSources. \<not> useRelayer (env(fst pf := None, snd pf := None))) \<and>
   ((\<forall>pf \<in> set credentialSources. env (fst pf) \<noteq> Some []) \<longrightarrow> useRelayer env = spec_useRelayer env) \<and>
   (getPositions b a 200 = Inr ps \<and> redeemablePositions ps \<noteq> [] \<longrightarrow>
      claimWinnings b env k a =
        (if useRelayer env
         then claimViaRelayer b env k (conditionIdsOf (redeemablePositions ps))
                (emptyResult, [GetPositions a 200])
         else claimViaDirect b k (conditionIdsOf (redeemablePositions ps))
                (emptyResult, [GetPositions a 200])))"
proof (intro conjI)
  show "useRelayer env \<longleftrightarrow> (\<forall>pf \<in> set credentialSources. credentialPresent env pf)"
    by (rule useRelayer_credentialPresent)
  show "\<forall>pf \<in> set credentialSources. \<not> useRelayer (env(fst pf := Some []))"
  proof
    fix pf assume "pf \<in> set credentialSources"
    moreover have "\<not> credentialPresent (env(fst pf := Some [])) pf"
      using credentialPresent_primary_empty [of env "fst pf" "snd pf"] by simp
    ultimately show "\<not> useRelayer (env(fst pf := Some []))"
      unfolding useRelayer_credentialPresent by blast
  qed
  show "\<forall>pf \<in> set credentialSources. \<not> useRelayer (env(fst pf := None, snd pf := None))"
  proof
    fix pf assume "pf \<in> set credentialSources"
    moreover have "\<not> credentialPresent (env(fst pf := None, snd pf := None)) pf"
      using credentialPresent_both_unset [of env "fst pf" "snd pf"] by simp
    ultimately show "\<not> useRelayer (env(fst pf := None, snd pf := None))"
      unfolding useRelayer_credentialPresent by blast
  qed
  show "(\<forall>pf \<in> set credentialSources. env (fst pf) \<noteq> Some []) \<longrightarrow> useRelayer env = spec_useRelayer env"
    using useRelayer_spec_agree by blast
  show "getPositions b a 200 = Inr ps \<and> redeemablePositions ps \<noteq> [] \<longrightarrow>
      claimWinnings b env k a =
        (if useRelayer env
         then claimViaRelayer b env k (conditionIdsOf (redeemablePositions ps))
                (emptyResult, [GetPositions a 200])
         else claimViaDirect b k (conditionIdsOf (redeemablePositions ps))
                (emptyResult, [GetPositions a 200]))"
    using claimWinnings_dispatch by blast
qed

theorem useRelayer_selection_witness:
  "credentialPresent envRelayed (''POLY_BUILDER_API_KEY'', ''BUILDER_API_KEY'') \<and>
   credentialPresent envRelayed (''POLY_BUILDER_SECRET'', ''BUILDER_SECRET'') \<and>
   credentialPresent envRelayed (''POLY_BUILDER_PASSPHRASE'', ''BUILDER_PASSPHRASE'') \<and>
   useRelayer envRelayed \<and> spec_useRelayer envRelayed \<and>
   \<not> useRelayer (envRelayed(''POLY_BUILDER_SECRET'' := Some [])) \<and>
   \<not> useRelayer (envRelayed(''POLY_BUILDER_SECRET'' := None, ''BUILDER_SECRET'' := None)) \<and>
   claimWinnings (mockBackend (Inr scenarioPositions) [] [] []) envRelayed ''key'' ''addr'' =
     claimViaRelayer (mockBackend (Inr scenarioPositions) [] [] []) envRelayed ''key'' [''abc'']
       (emptyResult, [GetPositions ''addr'' 200])"
proof -
  let ?b = "mockBackend (Inr scenarioPositions) [] [] []"
  note t = useRelayer_selection [of envRelayed ?b "''addr''" scenarioPositions "''key''"]
  have present: "\<forall>pf \<in> set credentialSources. credentialPresent envRelayed pf"
    by (simp add: credentialSources_def credentialPresent_def envRelayed_def)
  have noEmpty: "\<forall>pf \<in> set credentialSources. envRelayed (fst pf) \<noteq> Some []"
    by (simp add: credentialSources_def envRelayed_def)
  have src: "(''POLY_BUILDER_SECRET'', ''BUILDER_SECRET'') \<in> set credentialSources"
    by (simp add: credentialSources_def)
  have fetch: "getPositions ?b ''addr'' 200 = Inr scenarioPositions"
    by (simp add: mockBackend_def)
  have some: "redeemablePositions scenarioPositions \<noteq> []"
    by (simp add: scenario_redeemable)
  from t present have u: "useRelayer envRelayed"
    by blast
  from t noEmpty u have s: "spec_useRelayer envRelayed"
    by blast
  from t src have e: "\<not> useRelayer (envRelayed(''POLY_BUILDER_SECRET'' := Some []))"
    by fastforce
  from t src have n: "\<not> useRelayer (envRelayed(''POLY_BUILDER_SECRET'' := None, ''BUILDER_SECRET'' := None))"
    by fastforce
  from t fetch some u
  have "claimWinnings ?b envRelayed ''key'' ''addr'' =
     claimViaRelayer ?b envRelayed ''key'' (conditionIdsOf (redeemablePositions scenarioPositions))
       (emptyResult, [GetPositions ''addr'' 200])"
    by simp
  moreover from present
  have "credentialPresent envRelayed (''POLY_BUILDER_API_KEY'', ''BUILDER_API_KEY'')"
    and "credentialPresent envRelayed (''POLY_BUILDER_SECRET'', ''BUILDER_SECRET'')"
    and "credentialPresent envRelayed (''POLY_BUILDER_PASSPHRASE'', ''BUILDER_PASSPHRASE'')"
    by (simp_all add: credentialSources_def)
  ultimately show ?thesis
    using u s e n by (simp only: scenario_conditionIds simp_thms)
qed


section \<open>Propagated exceptions\<close>




section \<open>Nothing to redeem\<close>

text \<open>
  C3. When the position fetch returns no position with \<open>redeemable\<close> set and a positive
  size, \<open>claimWinnings\<close> returns normally with the zero-valued result, and the position
  fetch is the only call it has made: neither redeemer is invoked, nor its client built.
\<close>

theorem claimWinnings_nothing_redeemable:
  assumes "getPositions b a 200 = Inr ps"
    and "\<forall>p \<in> set ps. \<not> (redeemable p \<and> size_pos p > 0)"
  shows "claimWinnings b env k a =
           Inr (\<lparr>claimed = 0, failed = 0, errors = [], txHashes = []\<rparr>, [GetPositions a 200])"
proof -
  from assms(2) have "redeemablePositions ps = []"
    by (simp add: redeemablePositions_def)
  with assms(1) show ?thesis
    by (simp add: claimWinnings_empty emptyResult_def)
qed

theorem claimWinnings_nothing_redeemable_witness:
  "filter (\<lambda>p. redeemable p \<and> size_pos p > 0) (drop 2 scenarioPositions) = [] \<and>
   claimWinnings (mockBackend (Inr (drop 2 scenarioPositions)) [''key''] [] []) envRelayed
     ''key'' ''addr'' =
     Inr (\<lparr>claimed = 0, failed = 0, errors = [], txHashes = []\<rparr>, [GetPositions ''addr'' 200])"
proof -
  have none: "\<forall>p \<in> set (drop 2 scenarioPositions). \<not> (redeemable p \<and> size_pos p > 0)"
    by (simp add: scenarioPositions_def)
  have fetch: "getPositions (mockBackend (Inr (drop 2 scenarioPositions)) [''key''] [] []) ''addr'' 200 =
      Inr (drop 2 scenarioPositions)"
    by (simp add: mockBackend_simps)
  have "filter (\<lambda>p. redeemable p \<and> size_pos p > 0) (drop 2 scenarioPositions) = []"
    by (simp add: scenarioPositions_def)
  with claimWinnings_nothing_redeemable [OF fetch none] show ?thesis
    by blast
qed


section \<open>Deduplication\<close>




section \<open>Isolation of failures\<close>




section \<open>Shape of the normalizer's output\<close>

text \<open>
  C6, as the spec states it, fails: the id \<open>ghi\<close> of the spec's own example scenario is
  not empty and its normal form ends in \<open>ghi\<close>, which are not hexadecimal digits.
\<close>

theorem normalizeConditionId_pattern_counterexample:
  "''ghi'' \<noteq> [] \<and> \<not> isBytes32Hex (normalizeConditionId ''ghi'')"
  by (simp add: isBytes32Hex_normalizeConditionId stripPrefix_def startsWith_def
      sliceLast_def isLowerHex_def)

text \<open>
  C6, amended. For every input string, the empty one too, the output is \<open>0x\<close> followed
  by exactly 64 characters, and these are: with \<open>h\<close> the input without its optional \<open>0x\<close>
  prefix, as many zeros as \<open>h\<close> lacks to 64 characters, then the last 64 characters of
  \<open>h\<close> (all of \<open>h\<close> when it is shorter). The function neither validates nor lowercases:
  the 64 characters are lowercase hexadecimal digits exactly when the last 64 characters of
  \<open>h\<close> are, so in particular when every character of \<open>h\<close> is one.
\<close>

theorem normalizeConditionId_pattern:
  "(let h = (if take 2 x = ''0x'' then drop 2 x else x)
    in normalizeConditionId x =
         ''0x'' @ replicate (64 - length h) (CHR ''0'') @ drop (length h - 64) h) \<and>
   take 2 (normalizeConditionId x) = ''0x'' \<and>
   length (normalizeConditionId x) = 66 \<and>
   isBytes32Hex (normalizeConditionId x) = list_all isLowerHex (sliceLast 64 (stripPrefix x)) \<and>
   (list_all isLowerHex (stripPrefix x) \<longrightarrow> isBytes32Hex (normalizeConditionId x))"
proof (intro conjI)
  show "let h = (if take 2 x = ''0x'' then drop 2 x else x)
    in normalizeConditionId x =
         ''0x'' @ replicate (64 - length h) (CHR ''0'') @ drop (length h - 64) h"
    using normalizeConditionId_value [of x]
    by (simp only: stripPrefix_explicit Let_def)
  show "take 2 (normalizeConditionId x) = ''0x''"
    by (rule take2_normalizeConditionId)
  show "length (normalizeConditionId x) = 66"
    by (rule length_normalizeConditionId)
  show "isBytes32Hex (normalizeConditionId x) = list_all isLowerHex (sliceLast 64 (stripPrefix x))"
    by (rule isBytes32Hex_normalizeConditionId)
  show "list_all isLowerHex (stripPrefix x) \<longrightarrow> isBytes32Hex (normalizeConditionId x)"
    using list_all_sliceLast [of isLowerHex "stripPrefix x" 64]
    by (simp add: isBytes32Hex_normalizeConditionId)
qed

theorem normalizeConditionId_pattern_witness:
  "list_all isLowerHex (stripPrefix ''0xabc'') \<and> isBytes32Hex (normalizeConditionId ''0xabc'') \<and>
   length (normalizeConditionId ''0xabc'') = 66 \<and>
   normalizeConditionId ''0xabc'' = ''0x'' @ replicate 61 (CHR ''0'') @ ''abc'' \<and>
   normalizeConditionId ''abc'' = ''0x'' @ replicate 61 (CHR ''0'') @ ''abc''"
proof -
  have hex: "list_all isLowerHex (stripPrefix ''0xabc'')"
    by (simp add: stripPrefix_def startsWith_def sliceFrom_def isLowerHex_def)
  note t = normalizeConditionId_pattern [of "''0xabc''"]
  from t hex have 1: "isBytes32Hex (normalizeConditionId ''0xabc'')"
    by blast
  from t have 2: "length (normalizeConditionId ''0xabc'') = 66"
    by blast
  from t have 3: "normalizeConditionId ''0xabc'' = ''0x'' @ replicate 61 (CHR ''0'') @ ''abc''"
    by (simp add: Let_def)
  from normalizeConditionId_pattern [of "''abc''"]
  have 4: "normalizeConditionId ''abc'' = ''0x'' @ replicate 61 (CHR ''0'') @ ''abc''"
    by (simp add: Let_def)
  from hex 1 2 3 4 show ?thesis
    by (simp only: simp_thms)
qed

section \<open>Idempotence of the normalizer\<close>

text \<open>
  C7. The normalizer is idempotent: normalizing a normalized id gives the same string,
  for every input string.
\<close>

theorem normalizeConditionId_idempotent:
  "normalizeConditionId (normalizeConditionId x) = normalizeConditionId x"
proof -
  define h where "h = sliceLast 64 (padStart 64 (CHR ''0'') (stripPrefix x))"
  have len: "length h = 64"
    by (simp add: h_def length_sliceLast_padStart)
  have n: "normalizeConditionId x = ''0x'' @ h"
    by (simp add: h_def normalizeConditionId_shape)
  have "normalizeConditionId (''0x'' @ h) = ''0x'' @ sliceLast 64 (padStart 64 (CHR ''0'') h)"
    by (simp only: normalizeConditionId_shape stripPrefix_0x)
  also have "\<dots> = ''0x'' @ h"
    by (simp only: sliceLast_padStart_64 [OF len])
  finally show ?thesis
    by (simp only: n)
qed


section \<open>Error records\<close>

text \<open>
  C8. An iteration of either loop that returns has appended an error record exactly when
  its \<open>try\<close> block threw, and the record is then the first 10 characters of the condition
  id, the fixed separator of the template, and the first 80 characters of the error
  message; an iteration whose \<open>try\<close> block throws a value with a readable message does
  return, with that record appended; the two paths build it alike. Every error string of a
  result of \<open>claimWinnings\<close> has this form.
\<close>

theorem error_record_truncation:
  "(relayerIteration b cid (r, tr) = Inr (r', tr') \<longrightarrow>
      (case fst (relayerTry b tr cid) of
         Inl e \<Rightarrow>
           (\<exists>m. messageOf e = Inr m \<and>
              errors r' = errors r @ [take 10 cid @ errorSeparator @ take 80 m])
       | Inr w \<Rightarrow> errors r' = errors r)) \<and>
   (directIteration b cid (r, tr) = Inr (r', tr') \<longrightarrow>
      (case fst (directTry b tr cid) of
         Inl e \<Rightarrow>
           (\<exists>m. messageOf e = Inr m \<and>
              errors r' = errors r @ [take 10 cid @ errorSeparator @ take 80 m])
       | Inr w \<Rightarrow> errors r' = errors r)) \<and>
   (relayerTry b tr cid = (Inl x, tr1) \<and> messageOf x = Inr msg \<longrightarrow>
      (\<exists>r1. relayerIteration b cid (r, tr) = Inr (r1, tr1) \<and>
         errors r1 = errors r @ [take 10 cid @ errorSeparator @ take 80 msg])) \<and>
   (directTry b tr cid = (Inl x, tr1) \<and> messageOf x = Inr msg \<longrightarrow>
      (\<exists>r1. directIteration b cid (r, tr) = Inr (r1, tr1) \<and>
         errors r1 = errors r @ [take 10 cid @ errorSeparator @ take 80 msg])) \<and>
   (claimWinnings b env k a = Inr (res, trace) \<longrightarrow>
      (\<forall>x \<in> set (errors res). \<exists>c m. x = take 10 c @ errorSeparator @ take 80 m))"
proof (intro conjI impI)
  assume "relayerIteration b cid (r, tr) = Inr (r', tr')"
  then show "case fst (relayerTry b tr cid) of
         Inl e \<Rightarrow>
           (\<exists>m. messageOf e = Inr m \<and>
              errors r' = errors r @ [take 10 cid @ errorSeparator @ take 80 m])
       | Inr w \<Rightarrow> errors r' = errors r"
    by (rule relayerIteration_errors)
next
  assume "directIteration b cid (r, tr) = Inr (r', tr')"
  then show "case fst (directTry b tr cid) of
         Inl e \<Rightarrow>
           (\<exists>m. messageOf e = Inr m \<and>
              errors r' = errors r @ [take 10 cid @ errorSeparator @ take 80 m])
       | Inr w \<Rightarrow> errors r' = errors r"
    by (rule directIteration_errors)
next
  assume "relayerTry b tr cid = (Inl x, tr1) \<and> messageOf x = Inr msg"
  then show "\<exists>r1. relayerIteration b cid (r, tr) = Inr (r1, tr1) \<and>
         errors r1 = errors r @ [take 10 cid @ errorSeparator @ take 80 msg]"
    using relayerIteration_readable [of b tr cid x tr1 msg r] by simp
next
  assume "directTry b tr cid = (Inl x, tr1) \<and> messageOf x = Inr msg"
  then show "\<exists>r1. directIteration b cid (r, tr) = Inr (r1, tr1) \<and>
         errors r1 = errors r @ [take 10 cid @ errorSeparator @ take 80 msg]"
    using directIteration_readable [of b tr cid x tr1 msg r] by simp
next
  assume "claimWinnings b env k a = Inr (res, trace)"
  then show "\<forall>x \<in> set (errors res). \<exists>c m. x = take 10 c @ errorSeparator @ take 80 m"
    by (rule claimWinnings_records)
qed

theorem error_record_truncation_witness:
  "length ''0x11112222333344bbb'' > 10 \<and> length longMessage > 80 \<and>
   (\<exists>r1. relayerIteration (mockBackend (Inr threePositions) [] [''bbb''] [])
        ''0x11112222333344bbb'' (emptyResult, []) =
        Inr (r1, [EncodeFunctionData (normalizeConditionId ''0x11112222333344bbb''),
                  RelayExecute (''redeemPositions'' @ normalizeConditionId ''0x11112222333344bbb'')]) \<and>
      errors r1 = [''0x11112222'' @ errorSeparator @ replicate 80 (CHR ''x'')]) \<and>
   (\<exists>r1. directIteration (mockBackend (Inr threePositions) [] [''bbb''] [])
        ''0x11112222333344bbb'' (emptyResult, []) =
        Inr (r1, [RedeemPositions (normalizeConditionId ''0x11112222333344bbb'')]) \<and>
      errors r1 = [''0x11112222'' @ errorSeparator @ replicate 80 (CHR ''x'')]) \<and>
   (\<exists>res tr. claimWinnings (mockBackend (Inr threePositions) [] [''bbb''] []) envUnset
        ''key'' ''addr'' = Inr (res, tr) \<and> errors res \<noteq> [] \<and>
      (\<forall>x \<in> set (errors res). \<exists>c m. x = take 10 c @ errorSeparator @ take 80 m))"
proof -
  let ?b = "mockBackend (Inr threePositions) [] [''bbb''] []"
  let ?c = "''0x11112222333344bbb''"
  have readable: "messageOf (ErrorObject longMessage) = Inr longMessage"
    by simp
  have rec: "errors emptyResult @ [take 10 ?c @ errorSeparator @ take 80 longMessage] =
      [''0x11112222'' @ errorSeparator @ replicate 80 (CHR ''x'')]"
    by (simp add: longMessage_truncated emptyResult_def)
  note t = error_record_truncation [where b = ?b and cid = ?c and r = emptyResult and tr = "[]"
      and x = "ErrorObject longMessage" and msg = longMessage]
  from t failing_tries(1) readable
  have 1: "\<exists>r1. relayerIteration ?b ?c (emptyResult, []) =
        Inr (r1, [EncodeFunctionData (normalizeConditionId ?c),
                  RelayExecute (''redeemPositions'' @ normalizeConditionId ?c)]) \<and>
      errors r1 = errors emptyResult @ [take 10 ?c @ errorSeparator @ take 80 longMessage]"
    by blast
  from t failing_tries(2) readable
  have 2: "\<exists>r1. directIteration ?b ?c (emptyResult, []) =
        Inr (r1, [RedeemPositions (normalizeConditionId ?c)]) \<and>
      errors r1 = errors emptyResult @ [take 10 ?c @ errorSeparator @ take 80 longMessage]"
    by blast
  have 3: "\<exists>res tr. claimWinnings ?b envUnset ''key'' ''addr'' = Inr (res, tr) \<and>
      errors res \<noteq> [] \<and>
      (\<forall>x \<in> set (errors res). \<exists>c m. x = take 10 c @ errorSeparator @ take 80 m)"
  proof (intro exI conjI)
    show run: "claimWinnings ?b envUnset ''key'' ''addr'' =
        Inr (\<lparr>claimed = 2, failed = 1,
               errors = [''0x11112222'' @ errorSeparator @ replicate 80 (CHR ''x'')],
               txHashes = [''0xtxaaa'', ''0xtxccc'']\<rparr>,
             [GetPositions ''addr'' 200, DirectSignerSetup ''key'',
              RedeemPositions (normalizeConditionId ''0x11112222333344aaa''), TxWait,
              RedeemPositions (normalizeConditionId ''0x11112222333344bbb''),
              RedeemPositions (normalizeConditionId ''0x11112222333344ccc''), TxWait])"
      by (rule run_three_direct)
    show "errors \<lparr>claimed = 2, failed = 1,
               errors = [''0x11112222'' @ errorSeparator @ replicate 80 (CHR ''x'')],
               txHashes = [''0xtxaaa'', ''0xtxccc'']\<rparr> \<noteq> []"
      by simp
    from run error_record_truncation [where b = ?b and env = envUnset and k = "''key''"
        and a = "''addr''"]
    show "\<forall>x \<in> set (errors \<lparr>claimed = 2, failed = 1,
               errors = [''0x11112222'' @ errorSeparator @ replicate 80 (CHR ''x'')],
               txHashes = [''0xtxaaa'', ''0xtxccc'']\<rparr>).
            \<exists>c m. x = take 10 c @ errorSeparator @ take 80 m"
      by blast
  qed
  have l: "length ?c > 10 \<and> length longMessage > 80"
    by (simp add: longMessage_truncated)
  from l 1 [unfolded rec] 2 [unfolded rec] 3 show ?thesis
    by blast
qed

section \<open>Counters and lists\<close>



section \<open>Confirmations without a hash\<close>

text \<open>
  C10. On both paths, when the \<open>try\<close> block of an iteration ends without throwing and the
  awaited confirmation carries no transaction hash, the iteration leaves the result as it
  was: nothing is counted and no error record is appended. So \<open>claimed + failed\<close>, which
  never exceeds the number of condition ids dispatched, can be strictly less than it.
\<close>

theorem no_hash_not_counted:
  "(relayerTry b tr cid = (Inr w, tr') \<and> \<not> truthy w \<longrightarrow>
      relayerIteration b cid (r, tr) = Inr (r, tr')) \<and>
   (directTry b tr cid = (Inr w, tr') \<and> \<not> truthy w \<longrightarrow>
      directIteration b cid (r, tr) = Inr (r, tr')) \<and>
   (relayerLoop b cids (emptyResult, tr) = Inr (r1, tr1) \<longrightarrow>
      claimed r1 + failed r1 \<le> length cids) \<and>
   (directLoop b cids (emptyResult, tr) = Inr (r1, tr1) \<longrightarrow>
      claimed r1 + failed r1 \<le> length cids) \<and>
   (\<exists>b' cids' r2 tr2. relayerLoop b' cids' (emptyResult, []) = Inr (r2, tr2) \<and>
      claimed r2 + failed r2 < length cids') \<and>
   (\<exists>b' cids' r2 tr2. directLoop b' cids' (emptyResult, []) = Inr (r2, tr2) \<and>
      claimed r2 + failed r2 < length cids')"
proof (intro conjI)
  show "relayerTry b tr cid = (Inr w, tr') \<and> \<not> truthy w \<longrightarrow>
      relayerIteration b cid (r, tr) = Inr (r, tr')"
    using relayerIteration_no_hash by blast
  show "directTry b tr cid = (Inr w, tr') \<and> \<not> truthy w \<longrightarrow>
      directIteration b cid (r, tr) = Inr (r, tr')"
    using directIteration_no_hash by blast
  show "relayerLoop b cids (emptyResult, tr) = Inr (r1, tr1) \<longrightarrow>
      claimed r1 + failed r1 \<le> length cids"
    using relayerLoop_count [of b cids "(emptyResult, tr)" "(r1, tr1)"]
    by (simp add: emptyResult_def)
  show "directLoop b cids (emptyResult, tr) = Inr (r1, tr1) \<longrightarrow>
      claimed r1 + failed r1 \<le> length cids"
    using directLoop_count [of b cids "(emptyResult, tr)" "(r1, tr1)"]
    by (simp add: emptyResult_def)
  have z: "claimed emptyResult + failed emptyResult < length [''0x11112222333344ccc'']"
    by (simp add: emptyResult_def)
  from z unconfirmed_loops(1)
  show "\<exists>b' cids' r2 tr2. relayerLoop b' cids' (emptyResult, []) = Inr (r2, tr2) \<and>
      claimed r2 + failed r2 < length cids'"
    by blast
  from z unconfirmed_loops(2)
  show "\<exists>b' cids' r2 tr2. directLoop b' cids' (emptyResult, []) = Inr (r2, tr2) \<and>
      claimed r2 + failed r2 < length cids'"
    by blast
qed

theorem no_hash_not_counted_witness:
  "\<not> truthy None \<and>
   relayerIteration (mockBackend (Inr threePositions) [] [] [''ccc''])
     ''0x11112222333344ccc'' (emptyResult, []) =
     Inr (emptyResult,
      [EncodeFunctionData (normalizeConditionId ''0x11112222333344ccc''),
       RelayExecute (''redeemPositions'' @ normalizeConditionId ''0x11112222333344ccc''),
       ResponseWait]) \<and>
   directIteration (mockBackend (Inr threePositions) [] [] [''ccc''])
     ''0x11112222333344ccc'' (emptyResult, []) =
     Inr (emptyResult, [RedeemPositions (normalizeConditionId ''0x11112222333344ccc''), TxWait])"
proof -
  have n: "\<not> truthy None"
    by (simp add: truthy_def)
  note t = no_hash_not_counted [where b = "mockBackend (Inr threePositions) [] [] [''ccc'']"
      and tr = "[]" and cid = "''0x11112222333344ccc''" and w = None and r = emptyResult]
  from n t [where tr' = "[EncodeFunctionData (normalizeConditionId ''0x11112222333344ccc''),
       RelayExecute (''redeemPositions'' @ normalizeConditionId ''0x11112222333344ccc''),
       ResponseWait]"]
    t [where tr' = "[RedeemPositions (normalizeConditionId ''0x11112222333344ccc''), TxWait]"]
    unconfirmed_tries
  show ?thesis
    by blast
qed

end
